theory Spec2Isabelle
  imports Main
begin

section \<open>JavaScript values\<close>

text \<open>
  The values that travel through the wrapper (request bodies, query parameters,
  response bodies, cached entries, WebSocket payloads). An object is the list of its
  own properties in enumeration order, which for keys that are not array indices is
  the insertion order. Numbers are restricted to integers and strings to byte strings.
  A property that may be \<^verbatim>\<open>undefined\<close> is an \<open>option\<close>.
\<close>

datatype json =
    JNull
  | JBool bool
  | JNum int
  | JStr string
  | JArr "json list"
  | JObj "(string \<times> json) list"

fun truthy :: "json \<Rightarrow> bool" where
  "truthy JNull = False"
| "truthy (JBool b) = b"
| "truthy (JNum n) = (n \<noteq> 0)"
| "truthy (JStr s) = (s \<noteq> [])"
| "truthy (JArr xs) = True"
| "truthy (JObj kvs) = True"

fun truthy_opt :: "json option \<Rightarrow> bool" where
  "truthy_opt None = False"
| "truthy_opt (Some v) = truthy v"

fun truthy_str :: "string option \<Rightarrow> bool" where
  "truthy_str None = False"
| "truthy_str (Some s) = (s \<noteq> [])"

text \<open>\<^verbatim>\<open>obj[k] = v\<close>: an existing property keeps its place, a new one goes last.\<close>

fun assign :: "'k \<Rightarrow> 'v \<Rightarrow> ('k \<times> 'v) list \<Rightarrow> ('k \<times> 'v) list" where
  "assign k v [] = [(k, v)]"
| "assign k v (p # ps) = (if fst p = k then (k, v) # ps else p # assign k v ps)"

subsection \<open>\<^verbatim>\<open>JSON.stringify\<close>\<close>

definition digit_char :: "nat \<Rightarrow> char" where
  "digit_char n = ''0123456789abcdef'' ! (n mod 16)"

fun digits :: "nat \<Rightarrow> string" where
  "digits n = (if n < 10 then [digit_char n]
               else digits (n div 10) @ [digit_char (n mod 10)])"

declare digits.simps [simp del]

definition show_int :: "int \<Rightarrow> string" where
  "show_int i = (if i < 0 then CHR ''-'' # digits (nat (- i)) else digits (nat i))"

definition escape_char :: "char \<Rightarrow> string" where
  "escape_char c =
     (if c = CHR 0x22 then [CHR 0x5C, CHR 0x22]
      else if c = CHR 0x5C then [CHR 0x5C, CHR 0x5C]
      else if c = CHR 0x08 then [CHR 0x5C, CHR ''b'']
      else if c = CHR 0x0C then [CHR 0x5C, CHR ''f'']
      else if c = CHR 0x0A then [CHR 0x5C, CHR ''n'']
      else if c = CHR 0x0D then [CHR 0x5C, CHR ''r'']
      else if c = CHR 0x09 then [CHR 0x5C, CHR ''t'']
      else if (of_char c :: nat) < 32
        then [CHR 0x5C, CHR ''u'', CHR ''0'', CHR ''0'',
              digit_char (of_char c div 16), digit_char (of_char c mod 16)]
      else [c])"

definition quote :: "string \<Rightarrow> string" where
  "quote s = CHR 0x22 # concat (map escape_char s) @ [CHR 0x22]"

fun JSON_stringify :: "json \<Rightarrow> string"
  and stringify_elements :: "json list \<Rightarrow> string"
  and stringify_members :: "(string \<times> json) list \<Rightarrow> string"
where
  "JSON_stringify JNull = ''null''"
| "JSON_stringify (JBool b) = (if b then ''true'' else ''false'')"
| "JSON_stringify (JNum n) = show_int n"
| "JSON_stringify (JStr s) = quote s"
| "JSON_stringify (JArr xs) = ''['' @ stringify_elements xs @ '']''"
| "JSON_stringify (JObj kvs) = ''{'' @ stringify_members kvs @ ''}''"
| "stringify_elements [] = []"
| "stringify_elements [x] = JSON_stringify x"
| "stringify_elements (x # y # ys) = JSON_stringify x @ '','' @ stringify_elements (y # ys)"
| "stringify_members [] = []"
| "stringify_members [(k, v)] = quote k @ '':'' @ JSON_stringify v"
| "stringify_members ((k, v) # p # ps) =
     quote k @ '':'' @ JSON_stringify v @ '','' @ stringify_members (p # ps)"

subsection \<open>Base64 (\<^verbatim>\<open>Buffer.from(s).toString('base64')\<close>)\<close>

definition base64_alphabet :: string where
  "base64_alphabet = ''ABCDEFGHIJKLMNOPQRSTUVWXYZabcdefghijklmnopqrstuvwxyz0123456789+/''"

definition b64 :: "nat \<Rightarrow> char" where
  "b64 n = base64_alphabet ! (n mod 64)"

fun base64 :: "string \<Rightarrow> string" where
  "base64 [] = []"
| "base64 [a] =
     (let x = (of_char a :: nat)
      in [b64 (x div 4), b64 (x mod 4 * 16), CHR ''='', CHR ''=''])"
| "base64 [a, b] =
     (let x = (of_char a :: nat); y = (of_char b :: nat)
      in [b64 (x div 4), b64 (x mod 4 * 16 + y div 16), b64 (y mod 16 * 4), CHR ''=''])"
| "base64 (a # b # c # rest) =
     (let x = (of_char a :: nat); y = (of_char b :: nat); z = (of_char c :: nat)
      in [b64 (x div 4), b64 (x mod 4 * 16 + y div 16),
          b64 (y mod 16 * 4 + z div 64), b64 (z mod 64)] @ base64 rest)"

section \<open>Configuration, requests, responses and errors\<close>

type_synonym header_map = "(string \<times> string) list"

text \<open>An \<^verbatim>\<open>AxiosRequestConfig\<close>, reduced to the fields the wrapper reads or writes.\<close>

record request_config =
  http_method :: "string option"
  url :: "string option"
  params :: "json option"
  data :: "json option"
  headers :: header_map

record response =
  r_status :: int
  r_data :: json
  r_config :: request_config

text \<open>The error object the transport rejects with; \<open>e_response\<close> is absent for
  network failures and timeouts.\<close>

record axios_error =
  e_message :: string
  e_response :: "response option"
  e_config :: request_config

datatype error =
    AxiosError axios_error
  | ErrorObject int json json
  | TypeError
  | SyntaxError
  | ResponseParsingError
  | HookError string
  | MaxRetriesError

text \<open>What \<^verbatim>\<open>request\<close> resolves with: a parsed body, the whole response object
  (\<^verbatim>\<open>src/app.ts\<close>), or \<^verbatim>\<open>undefined\<close>.\<close>

datatype result = Data json | WholeResponse response | Undefined

datatype outcome = Resolve response | Reject axios_error

record basic_auth =
  username :: string
  password :: string

text \<open>
  \<^verbatim>\<open>this.config\<close> after construction. \<^verbatim>\<open>baseURL\<close>, \<^verbatim>\<open>timeout\<close> and
  \<^verbatim>\<open>openAPIDocument\<close> only reach the transport and are left out. The one field
  assigned after construction, \<^verbatim>\<open>auth.bearerToken\<close>, lives in the state.
  \<open>retryAttempts\<close> is a natural number: negative and fractional values are not
  represented.
\<close>

record config =
  retryAttempts :: nat
  cacheEnabled :: bool
  cacheDuration :: nat
  apiKey :: "string option"
  basicAuth :: "basic_auth option"
  refreshToken :: "string option"

text \<open>
  The mutable state: the bearer token, the cache store and the clock (milliseconds).
  \<open>calls\<close> and \<open>refreshes\<close> are a log that the source does not keep: the request
  configurations handed to the transport, in order, and the number of calls of the
  refresh hook.
\<close>

record state =
  bearerToken :: "string option"
  cache :: "string \<rightharpoonup> (json \<times> nat)"
  now :: nat
  calls :: "request_config list"
  refreshes :: nat

text \<open>
  The collaborators: the host's \<^verbatim>\<open>JSON.parse\<close> (\<open>Inl\<close> where it throws), the HTTP
  transport behind the axios instance (its answer may depend on the number of earlier
  calls and on the configuration it is sent), and the token refresh hook
  \<^verbatim>\<open>this.getNewAccessToken\<close>, which a deployment replaces by its own refresh logic
  (its answer may depend on the number of earlier calls; \<open>Inl\<close> where it throws).
\<close>

record env =
  JSON_parse :: "string \<Rightarrow> error + json"
  transport :: "nat \<Rightarrow> request_config \<Rightarrow> outcome"
  refresh_hook :: "nat \<Rightarrow> error + string"

text \<open>The hook as both source files ship it: a placeholder that always succeeds.\<close>

definition getNewAccessToken :: "nat \<Rightarrow> error + string" where
  "getNewAccessToken n = Inr ''new-access-token''"

subsection \<open>The cache store\<close>

text \<open>
  Modelled from the spec: the cache collaborator (the \<^verbatim>\<open>memory-cache\<close> package),
  \<^verbatim>\<open>get(key) -> value|absent\<close> and \<^verbatim>\<open>put(key, value, ttlMillis)\<close>; an entry
  expires \<open>ttl\<close> after insertion and is invisible once the duration has elapsed.
\<close>

definition cache_put :: "string \<Rightarrow> json \<Rightarrow> nat \<Rightarrow> state \<Rightarrow> state" where
  "cache_put k v ttl s = s\<lparr>cache := (cache s)(k \<mapsto> (v, now s + ttl))\<rparr>"

definition cache_get :: "state \<Rightarrow> string \<Rightarrow> json option" where
  "cache_get s k =
     (case cache s k of
        None \<Rightarrow> None
      | Some (v, expires) \<Rightarrow> if now s < expires then Some v else None)"

section \<open>The request pipeline\<close>

definition getAuthHeaders :: "config \<Rightarrow> state \<Rightarrow> header_map \<Rightarrow> header_map" where
  "getAuthHeaders C s existingHeaders =
     (let h0 = existingHeaders;
          h1 = (case apiKey C of
                  None \<Rightarrow> h0
                | Some k \<Rightarrow> if k \<noteq> [] then assign ''X-API-Key'' k h0 else h0);
          h2 = (case bearerToken s of
                  None \<Rightarrow> h1
                | Some t \<Rightarrow> if t \<noteq> [] then assign ''Authorization'' (''Bearer '' @ t) h1 else h1);
          h3 = (case basicAuth C of
                  None \<Rightarrow> h2
                | Some b \<Rightarrow>
                    assign ''Authorization''
                      (''Basic '' @ base64 (username b @ '':'' @ password b)) h2)
      in h3)"

text \<open>A template literal prints an absent value as \<^verbatim>\<open>undefined\<close>;
  \<^verbatim>\<open>x || {}\<close> replaces a falsy value by the empty object.\<close>

definition template :: "string option \<Rightarrow> string" where
  "template x = (case x of None \<Rightarrow> ''undefined'' | Some s \<Rightarrow> s)"

definition or_empty :: "json option \<Rightarrow> json" where
  "or_empty x = (case x of None \<Rightarrow> JObj [] | Some v \<Rightarrow> if truthy v then v else JObj [])"

definition getCacheKey :: "request_config \<Rightarrow> string" where
  "getCacheKey c =
     template (http_method c) @ ''-'' @ template (url c) @ ''-'' @
     JSON_stringify (or_empty (params c)) @ ''-'' @ JSON_stringify (or_empty (data c))"

definition parseResponse :: "env \<Rightarrow> json \<Rightarrow> error + json" where
  "parseResponse E d =
     (case d of
        JStr s \<Rightarrow> (case JSON_parse E s of Inr v \<Rightarrow> Inr v | Inl e \<Rightarrow> Inr d)
      | _ \<Rightarrow> Inr d)"

text \<open>The two source files: \<^verbatim>\<open>app.js\<close> and \<^verbatim>\<open>src/app.ts\<close>.\<close>

datatype impl = AppJs | AppTs

definition handleResponse ::
  "impl \<Rightarrow> env \<Rightarrow> config \<Rightarrow> state \<Rightarrow> response \<Rightarrow> state \<times> (error + result)" where
  "handleResponse I E C s r =
     (case parseResponse E (r_data r) of
        Inl e \<Rightarrow> (s, Inl (case I of AppJs \<Rightarrow> ResponseParsingError | AppTs \<Rightarrow> e))
      | Inr d \<Rightarrow>
          (let s' = (if cacheEnabled C
                     then cache_put (getCacheKey (r_config r)) d (cacheDuration C) s
                     else s)
           in (s', Inr (case I of AppJs \<Rightarrow> Data d | AppTs \<Rightarrow> WholeResponse r))))"

text \<open>\<^verbatim>\<open>error.response.data.message || error.message\<close>\<close>

definition message_of :: "axios_error \<Rightarrow> json \<Rightarrow> json" where
  "message_of e d =
     (case d of
        JObj kvs \<Rightarrow>
          (case map_of kvs ''message'' of
             Some m \<Rightarrow> if truthy m then m else JStr (e_message e)
           | None \<Rightarrow> JStr (e_message e))
      | _ \<Rightarrow> JStr (e_message e))"

text \<open>The object literal \<^verbatim>\<open>{status, message, data}\<close> of \<^verbatim>\<open>app.js\<close>; reading
  \<^verbatim>\<open>.message\<close> of a null body raises a \<^verbatim>\<open>TypeError\<close> instead.\<close>

definition error_object :: "axios_error \<Rightarrow> response \<Rightarrow> error" where
  "error_object e r =
     (case r_data r of
        JNull \<Rightarrow> TypeError
      | _ \<Rightarrow> ErrorObject (r_status r) (message_of e (r_data r)) (r_data r))"

text \<open>
  One call of the axios instance: the request interceptor, the transport, then the
  response interceptors. \<^verbatim>\<open>refreshTokenAndRetry\<close> calls the instance again, and
  nothing bounds that recursion, so the three functions take fuel: the number of
  transport calls one call of the instance may make. \<open>None\<close> is "has not returned".
\<close>

fun axiosInstance ::
    "impl \<Rightarrow> env \<Rightarrow> config \<Rightarrow> nat \<Rightarrow> state \<Rightarrow> request_config \<Rightarrow> (state \<times> (error + result)) option"
  and handleError ::
    "impl \<Rightarrow> env \<Rightarrow> config \<Rightarrow> nat \<Rightarrow> state \<Rightarrow> axios_error \<Rightarrow> (state \<times> (error + result)) option"
  and refreshTokenAndRetry ::
    "impl \<Rightarrow> env \<Rightarrow> config \<Rightarrow> nat \<Rightarrow> state \<Rightarrow> axios_error \<Rightarrow> (state \<times> (error + result)) option"
where
  "axiosInstance I E C 0 s c = None"
| "axiosInstance I E C (Suc fuel) s c =
     (let c' = c\<lparr>headers := getAuthHeaders C s (headers c)\<rparr>;
          s' = s\<lparr>calls := calls s @ [c']\<rparr>
      in case transport E (length (calls s)) c' of
           Resolve r \<Rightarrow> Some (handleResponse I E C s' r)
         | Reject e \<Rightarrow> handleError I E C fuel s' e)"
| "handleError I E C fuel s e =
     (case e_response e of
        Some r \<Rightarrow>
          if r_status r = 401 \<and> truthy_str (refreshToken C)
          then refreshTokenAndRetry I E C fuel s e
          else (case I of
                  AppJs \<Rightarrow> Some (s, Inl (error_object e r))
                | AppTs \<Rightarrow> Some (s, Inl (AxiosError e)))
      | None \<Rightarrow> Some (s, Inl (AxiosError e)))"
| "refreshTokenAndRetry I E C fuel s e =
     (case refresh_hook E (refreshes s) of
        Inl refreshError \<Rightarrow> Some (s\<lparr>refreshes := Suc (refreshes s)\<rparr>, Inl refreshError)
      | Inr newToken \<Rightarrow>
          axiosInstance I E C fuel
            (s\<lparr>refreshes := Suc (refreshes s), bearerToken := Some newToken\<rparr>)
            ((e_config e)\<lparr>headers :=
               assign ''Authorization'' (''Bearer '' @ newToken) (headers (e_config e))\<rparr>))"

text \<open>
  The two ways through \<^verbatim>\<open>handleError\<close>, named for the statements below: whether it
  refreshes, and what it throws when it does not.
\<close>

definition refresh_case :: "config \<Rightarrow> axios_error \<Rightarrow> bool" where
  "refresh_case C e =
     (case e_response e of
        None \<Rightarrow> False
      | Some r \<Rightarrow> r_status r = 401 \<and> truthy_str (refreshToken C))"

definition thrown :: "impl \<Rightarrow> axios_error \<Rightarrow> error" where
  "thrown I e =
     (case e_response e of
        None \<Rightarrow> AxiosError e
      | Some r \<Rightarrow> (case I of AppJs \<Rightarrow> error_object e r | AppTs \<Rightarrow> AxiosError e))"

text \<open>The retry loop of \<^verbatim>\<open>request\<close>; the wait advances the clock.\<close>

function request_loop ::
  "impl \<Rightarrow> env \<Rightarrow> config \<Rightarrow> nat \<Rightarrow> request_config \<Rightarrow> nat \<Rightarrow> state \<Rightarrow> (state \<times> (error + result)) option"
where
  "request_loop I E C fuel c attempts s =
     (if attempts < retryAttempts C then
        (case axiosInstance I E C fuel s c of
           None \<Rightarrow> None
         | Some (s', Inr response) \<Rightarrow> Some (s', Inr response)
         | Some (s', Inl err) \<Rightarrow>
             (if attempts + 1 = retryAttempts C then Some (s', Inl err)
              else request_loop I E C fuel c (attempts + 1)
                     (s'\<lparr>now := now s' + 1000 * (attempts + 1)\<rparr>)))
      else (case I of
              AppTs \<Rightarrow> Some (s, Inl MaxRetriesError)
            | AppJs \<Rightarrow> Some (s, Inr Undefined)))"
  by pat_completeness auto
termination
  by (relation "measure (\<lambda>(I, E, C, fuel, c, attempts, s). retryAttempts C - attempts)") auto

declare request_loop.simps [simp del]

text \<open>\<^verbatim>\<open>{ method, url: endpoint, ...options }\<close>: a \<^verbatim>\<open>method\<close> or \<^verbatim>\<open>url\<close> among the
  options replaces the argument.\<close>

definition spread :: "string option \<Rightarrow> string \<Rightarrow> request_config \<Rightarrow> request_config" where
  "spread m endpoint options =
     options\<lparr>http_method := (case http_method options of None \<Rightarrow> m | Some m' \<Rightarrow> Some m'),
             url := (case url options of None \<Rightarrow> Some endpoint | Some u \<Rightarrow> Some u)\<rparr>"

definition default_method :: "impl \<Rightarrow> string option \<Rightarrow> request_config \<Rightarrow> string option" where
  "default_method I m options =
     (case I of
        AppTs \<Rightarrow> m
      | AppJs \<Rightarrow>
          if truthy_str m then m
          else Some (if truthy_opt (data options) then ''POST'' else ''GET''))"

definition request ::
  "impl \<Rightarrow> env \<Rightarrow> config \<Rightarrow> nat \<Rightarrow> string option \<Rightarrow> string \<Rightarrow> request_config \<Rightarrow> state
     \<Rightarrow> (state \<times> (error + result)) option" where
  "request I E C fuel m endpoint options s =
     (let c = spread (default_method I m options) endpoint options;
          cacheKey = getCacheKey c
      in case (if cacheEnabled C then cache_get s cacheKey else None) of
           None \<Rightarrow> request_loop I E C fuel c 0 s
         | Some cachedData \<Rightarrow>
             if truthy cachedData then Some (s, Inr (Data cachedData))
             else request_loop I E C fuel c 0 s)"

definition no_options :: request_config where
  "no_options = \<lparr>http_method = None, url = None, params = None, data = None, headers = []\<rparr>"

definition get ::
  "impl \<Rightarrow> env \<Rightarrow> config \<Rightarrow> nat \<Rightarrow> string \<Rightarrow> json \<Rightarrow> state \<Rightarrow> (state \<times> (error + result)) option" where
  "get I E C fuel endpoint ps s =
     request I E C fuel (Some ''GET'') endpoint (no_options\<lparr>params := Some ps\<rparr>) s"


section \<open>WebSocket wiring\<close>

text \<open>
  \<^verbatim>\<open>connectWebSocket\<close> registers four listeners. The model is the listener table:
  for an event of the socket, the call of the user's callback that results
  (\<open>None\<close> when the callback was not supplied).
\<close>

record ws_options =
  onOpen :: bool
  onMessage :: bool
  onError :: bool
  onClose :: bool




section \<open>Example inputs\<close>

text \<open>
  Collaborators, configurations and states for the scenarios below. \<open>tiny_parse\<close>
  stands for \<^verbatim>\<open>JSON.parse\<close> on the one text it decodes; a transport answers with a
  response (or an error) that carries the configuration it was sent.
\<close>

definition tiny_parse :: "string \<Rightarrow> error + json" where
  "tiny_parse s = (if s = ''null'' then Inr JNull else Inl SyntaxError)"

definition env_ok :: env where
  "env_ok =
     \<lparr>JSON_parse = tiny_parse,
      transport = (\<lambda>n c. Resolve \<lparr>r_status = 200, r_data = JStr ''null'', r_config = c\<rparr>),
      refresh_hook = getNewAccessToken\<rparr>"

definition cfg_all_auth :: config where
  "cfg_all_auth =
     \<lparr>retryAttempts = 3, cacheEnabled = False, cacheDuration = 300000, apiKey = Some ''k1'',
      basicAuth = Some \<lparr>username = ''user'', password = ''pass''\<rparr>, refreshToken = None\<rparr>"

definition state0 :: state where
  "state0 = \<lparr>bearerToken = None, cache = Map.empty, now = 0, calls = [], refreshes = 0\<rparr>"

definition post1 :: json where
  "post1 = JObj [(''id'', JNum 1), (''title'', JStr ''x'')]"

definition env_post1 :: env where
  "env_post1 =
     \<lparr>JSON_parse = tiny_parse,
      transport = (\<lambda>n c. Resolve \<lparr>r_status = 200, r_data = post1, r_config = c\<rparr>),
      refresh_hook = getNewAccessToken\<rparr>"

definition cfg_cache :: config where
  "cfg_cache =
     \<lparr>retryAttempts = 3, cacheEnabled = True, cacheDuration = 300000, apiKey = None,
      basicAuth = None, refreshToken = None\<rparr>"

definition get_post1 :: request_config where
  "get_post1 = \<lparr>http_method = Some ''GET'', url = Some ''/posts/1'', params = Some (JObj []),
                 data = None, headers = []\<rparr>"

text \<open>A transport whose first response has the body \<open>0\<close> and whose later responses
  have the body \<open>7\<close>, and the states after a first \<^verbatim>\<open>get('/posts/1')\<close>.\<close>

definition env_zero_then_seven :: env where
  "env_zero_then_seven =
     \<lparr>JSON_parse = tiny_parse,
      transport = (\<lambda>n c. Resolve \<lparr>r_status = 200, r_data = (if n = 0 then JNum 0 else JNum 7),
                                  r_config = c\<rparr>),
      refresh_hook = getNewAccessToken\<rparr>"

definition state_zero_cached :: state where
  "state_zero_cached =
     state0\<lparr>calls := [get_post1], cache := [''GET-/posts/1-{}-{}'' \<mapsto> (JNum 0, 300000)]\<rparr>"

definition state_post1_cached :: state where
  "state_post1_cached =
     state0\<lparr>calls := [get_post1], cache := [''GET-/posts/1-{}-{}'' \<mapsto> (post1, 300000)]\<rparr>"

definition http_error :: "int \<Rightarrow> json \<Rightarrow> request_config \<Rightarrow> axios_error" where
  "http_error st body c =
     \<lparr>e_message = ''Request failed with status code '' @ show_int st,
      e_response = Some \<lparr>r_status = st, r_data = body, r_config = c\<rparr>,
      e_config = c\<rparr>"

definition ok_post1 :: "request_config \<Rightarrow> response" where
  "ok_post1 c = \<lparr>r_status = 200, r_data = post1, r_config = c\<rparr>"

definition env_always_404 :: env where
  "env_always_404 =
     \<lparr>JSON_parse = tiny_parse,
      transport = (\<lambda>n c. Reject (http_error 404 (JObj []) c)),
      refresh_hook = getNewAccessToken\<rparr>"


definition env_fail_twice :: env where
  "env_fail_twice =
     \<lparr>JSON_parse = tiny_parse,
      transport = (\<lambda>n c. if n < 2 then Reject (http_error 404 (JObj []) c)
                          else Resolve (ok_post1 c)),
      refresh_hook = getNewAccessToken\<rparr>"

definition env_401_then_500 :: env where
  "env_401_then_500 =
     \<lparr>JSON_parse = tiny_parse,
      transport = (\<lambda>n c. if n = 0 then Reject (http_error 401 (JObj []) c)
                          else Reject (http_error 500 (JObj []) c)),
      refresh_hook = getNewAccessToken\<rparr>"

definition cfg_refresh :: config where
  "cfg_refresh =
     \<lparr>retryAttempts = 3, cacheEnabled = False, cacheDuration = 300000, apiKey = None,
      basicAuth = None, refreshToken = Some ''refresh-1''\<rparr>"

definition env_401_once :: env where
  "env_401_once =
     \<lparr>JSON_parse = tiny_parse,
      transport = (\<lambda>n c. if n = 0 then Reject (http_error 401 (JObj []) c)
                          else Resolve (ok_post1 c)),
      refresh_hook = getNewAccessToken\<rparr>"

definition env_hook_fails :: env where
  "env_hook_fails =
     \<lparr>JSON_parse = tiny_parse,
      transport = (\<lambda>n c. if n = 0 then Reject (http_error 401 (JObj []) c)
                          else Resolve (ok_post1 c)),
      refresh_hook = (\<lambda>n. Inl (HookError ''refresh failed''))\<rparr>"

definition get_post1_bearer :: request_config where
  "get_post1_bearer = get_post1\<lparr>headers := [(''Authorization'', ''Bearer new-access-token'')]\<rparr>"

definition not_found :: json where
  "not_found = JObj [(''message'', JStr ''Not Found'')]"

definition env_404_message :: env where
  "env_404_message =
     \<lparr>JSON_parse = tiny_parse,
      transport = (\<lambda>n c. Reject (http_error 404 not_found c)),
      refresh_hook = getNewAccessToken\<rparr>"

definition timeout_error :: "request_config \<Rightarrow> axios_error" where
  "timeout_error c =
     \<lparr>e_message = ''timeout of 30000ms exceeded'', e_response = None, e_config = c\<rparr>"

definition env_timeout :: env where
  "env_timeout =
     \<lparr>JSON_parse = tiny_parse,
      transport = (\<lambda>n c. Reject (timeout_error c)),
      refresh_hook = getNewAccessToken\<rparr>"

definition params_ab :: json where
  "params_ab = JObj [(''a'', JNum 1), (''b'', JNum 2)]"

definition params_ba :: json where
  "params_ba = JObj [(''b'', JNum 2), (''a'', JNum 1)]"

definition frame_a1 :: string where
  \<open>frame_a1 = ''{"a":1}''\<close>

definition parse_a1 :: "string \<Rightarrow> error + json" where
  "parse_a1 s = (if s = frame_a1 then Inr (JObj [(''a'', JNum 1)]) else Inl SyntaxError)"

definition env_ws :: env where
  "env_ws = env_ok\<lparr>JSON_parse := parse_a1\<rparr>"

definition only_onMessage :: ws_options where
  "only_onMessage = \<lparr>onOpen = False, onMessage = True, onError = False, onClose = False\<rparr>"

section \<open>Auth headers\<close>

lemma map_of_assign: "map_of (assign k v al) = (map_of al)(k \<mapsto> v)"
  by (induction al) auto

text \<open>
  C7. \<^verbatim>\<open>getAuthHeaders\<close> returns the existing headers with \<^verbatim>\<open>X-API-Key\<close> set when
  an API key is configured and \<^verbatim>\<open>Authorization\<close> set to the Bearer value when a
  bearer token is configured, then to the Basic value when basic auth is configured:
  with both, the Basic value is the one in the result. Every other header is the
  input's. ("Configured" is JavaScript truthiness: an empty string counts as absent.)
\<close>

theorem getAuthHeaders_last_writer_wins:
  "map_of (getAuthHeaders C s h) k =
     (if k = ''Authorization'' then
        (case basicAuth C of
           Some b \<Rightarrow> Some (''Basic '' @ base64 (username b @ '':'' @ password b))
         | None \<Rightarrow>
             (case bearerToken s of
                Some t \<Rightarrow> if t \<noteq> [] then Some (''Bearer '' @ t) else map_of h k
              | None \<Rightarrow> map_of h k))
      else if k = ''X-API-Key'' then
        (case apiKey C of
           Some a \<Rightarrow> if a \<noteq> [] then Some a else map_of h k
         | None \<Rightarrow> map_of h k)
      else map_of h k)"
  by (cases "apiKey C"; cases "basicAuth C"; cases "bearerToken s")
     (simp_all add: getAuthHeaders_def Let_def map_of_assign)

theorem getAuthHeaders_last_writer_wins_witness:
  "getAuthHeaders cfg_all_auth (state0\<lparr>bearerToken := Some ''tok''\<rparr>) [(''Accept'', ''text/plain'')]
     = [(''Accept'', ''text/plain''), (''X-API-Key'', ''k1''),
        (''Authorization'', ''Basic dXNlcjpwYXNz'')]
   \<and> map_of (getAuthHeaders cfg_all_auth (state0\<lparr>bearerToken := Some ''tok''\<rparr>)
         [(''Accept'', ''text/plain'')]) ''Authorization''
     = Some (''Basic '' @ base64 ''user:pass'')"
  using getAuthHeaders_last_writer_wins
    [of cfg_all_auth "state0\<lparr>bearerToken := Some ''tok''\<rparr>" "[(''Accept'', ''text/plain'')]"
        "''Authorization''"]
  by (simp add: getAuthHeaders_def cfg_all_auth_def state0_def b64_def base64_alphabet_def)

section \<open>Parsing a response body\<close>

text \<open>
  C8. \<^verbatim>\<open>parseResponse\<close> never throws: it always returns a value. A string that
  \<^verbatim>\<open>JSON.parse\<close> rejects comes back unchanged, a string it accepts comes back
  decoded, and a value that is not a string comes back as it is.
\<close>

theorem parseResponse_total:
  "(\<exists>v. parseResponse E d = Inr v) \<and>
   (\<forall>s e. d = JStr s \<and> JSON_parse E s = Inl e \<longrightarrow> parseResponse E d = Inr d) \<and>
   (\<forall>s v. d = JStr s \<and> JSON_parse E s = Inr v \<longrightarrow> parseResponse E d = Inr v) \<and>
   ((\<forall>s. d \<noteq> JStr s) \<longrightarrow> parseResponse E d = Inr d)"
  by (cases d) (auto simp: parseResponse_def split: sum.splits)

theorem parseResponse_total_witness:
  "parseResponse env_ok (JStr ''nul'') = Inr (JStr ''nul'') \<and>
   parseResponse env_ok (JStr ''null'') = Inr JNull \<and>
   parseResponse env_ok (JNum 5) = Inr (JNum 5)"
proof -
  have a: "JSON_parse env_ok ''nul'' = Inl SyntaxError"
    by (simp add: env_ok_def tiny_parse_def)
  have b: "JSON_parse env_ok ''null'' = Inr JNull"
    by (simp add: env_ok_def tiny_parse_def)
  have c: "\<forall>s. JNum 5 \<noteq> JStr s"
    by simp
  from parseResponse_total [of env_ok "JStr ''nul''"] a
  have 1: "parseResponse env_ok (JStr ''nul'') = Inr (JStr ''nul'')" by blast
  from parseResponse_total [of env_ok "JStr ''null''"] b
  have 2: "parseResponse env_ok (JStr ''null'') = Inr JNull" by blast
  from parseResponse_total [of env_ok "JNum 5"] c
  have 3: "parseResponse env_ok (JNum 5) = Inr (JNum 5)" by blast
  from 1 2 3 show ?thesis by simp
qed

section \<open>The two ways through handleError\<close>

lemma handleError_cases [simp]:
  "handleError I E C fuel s e =
     (if refresh_case C e then refreshTokenAndRetry I E C fuel s e
      else Some (s, Inl (thrown I e)))"
  by (cases I) (auto simp: refresh_case_def thrown_def split: option.splits)

declare handleError.simps [simp del]

section \<open>The log of transport calls\<close>

lemma getAuthHeaders_cong:
  "bearerToken s' = bearerToken s \<Longrightarrow> getAuthHeaders C s' h = getAuthHeaders C s h"
  by (simp add: getAuthHeaders_def)

lemma handleResponse_Inr: "\<exists>s' v. handleResponse I E C s r = (s', Inr v)"
  by (cases "r_data r") (auto simp: handleResponse_def parseResponse_def Let_def split: sum.splits)

lemma handleResponse_calls: "handleResponse I E C s r = (s', x) \<Longrightarrow> calls s' = calls s"
  by (auto simp: handleResponse_def cache_put_def Let_def split: sum.splits if_splits)

lemma axiosInstance_calls:
  "axiosInstance I E C fuel s c = Some (s', x) \<Longrightarrow>
     \<exists>rest. calls s' = calls s @ c\<lparr>headers := getAuthHeaders C s (headers c)\<rparr> # rest"
proof (induction fuel arbitrary: s c)
  case 0
  then show ?case by simp
next
  case (Suc fuel)
  let ?c' = "c\<lparr>headers := getAuthHeaders C s (headers c)\<rparr>"
  let ?s' = "s\<lparr>calls := calls s @ [?c']\<rparr>"
  show ?case
  proof (cases "transport E (length (calls s)) ?c'")
    case (Resolve r)
    with Suc.prems have "handleResponse I E C ?s' r = (s', x)"
      by (simp add: Let_def)
    then have "calls s' = calls ?s'" by (rule handleResponse_calls)
    then show ?thesis by simp
  next
    case (Reject e)
    show ?thesis
    proof (cases "refresh_case C e")
      case False
      with Reject Suc.prems show ?thesis by (auto simp: Let_def)
    next
      case True
      show ?thesis
      proof (cases "refresh_hook E (refreshes ?s')")
        case (Inl err)
        with True Reject Suc.prems show ?thesis by (auto simp: Let_def)
      next
        case (Inr tok)
        with True Reject Suc.prems obtain s2 c2 where
          "axiosInstance I E C fuel s2 c2 = Some (s', x)" and "calls s2 = calls ?s'"
          by (auto simp: Let_def)
        with Suc.IH [of s2 c2] show ?thesis by auto
      qed
    qed
  qed
qed

lemma request_loop_calls_prefix:
  "request_loop I E C fuel c a s = Some (s', x) \<Longrightarrow> \<exists>ys. calls s' = calls s @ ys"
proof (induction I E C fuel c a s rule: request_loop.induct)
  case (1 I E C fuel c attempts s)
  show ?case
  proof (cases "attempts < retryAttempts C")
    case False
    with "1.prems" show ?thesis
      by (cases I) (auto simp: request_loop.simps [of _ E C fuel c attempts s])
  next
    case True
    show ?thesis
    proof (cases "axiosInstance I E C fuel s c")
      case None
      with True "1.prems" show ?thesis
        by (simp add: request_loop.simps [of I E C fuel c attempts s])
    next
      case (Some p)
      obtain s1 y where p: "p = (s1, y)" by (cases p)
      from Some p axiosInstance_calls obtain rest where
        c1: "calls s1 = calls s @ c\<lparr>headers := getAuthHeaders C s (headers c)\<rparr> # rest"
        by blast
      show ?thesis
      proof (cases y)
        case (Inr v)
        with True Some p "1.prems" have "s' = s1"
          by (simp add: request_loop.simps [of I E C fuel c attempts s])
        with c1 show ?thesis by simp
      next
        case (Inl err)
        show ?thesis
        proof (cases "attempts + 1 = retryAttempts C")
          case last: True
          with True Some p Inl "1.prems" have "s' = s1"
            by (simp add: request_loop.simps [of I E C fuel c attempts s])
          with c1 show ?thesis by simp
        next
          case more: False
          with True Some p Inl "1.prems" have
            "request_loop I E C fuel c (attempts + 1)
               (s1\<lparr>now := now s1 + 1000 * (attempts + 1)\<rparr>) = Some (s', x)"
            by (simp add: request_loop.simps [of I E C fuel c attempts s])
          with "1.IH" [OF True Some [unfolded p] _ Inl more] obtain ys where
            "calls s' = calls (s1\<lparr>now := now s1 + 1000 * (attempts + 1)\<rparr>) @ ys"
            by auto
          with c1 show ?thesis by simp
        qed
      qed
    qed
  qed
qed

lemma request_loop_first_call:
  assumes "a < retryAttempts C" and "request_loop I E C fuel c a s = Some (s', x)"
  shows "\<exists>rest. calls s' = calls s @ c\<lparr>headers := getAuthHeaders C s (headers c)\<rparr> # rest"
proof (cases "axiosInstance I E C fuel s c")
  case None
  with assms show ?thesis
    by (simp add: request_loop.simps [of I E C fuel c a s])
next
  case (Some p)
  obtain s1 y where p: "p = (s1, y)" by (cases p)
  from Some p axiosInstance_calls obtain rest where
    c1: "calls s1 = calls s @ c\<lparr>headers := getAuthHeaders C s (headers c)\<rparr> # rest"
    by blast
  show ?thesis
  proof (cases "\<exists>v. y = Inr v \<or> a + 1 = retryAttempts C")
    case True
    with assms Some p have "s' = s1"
      by (cases y) (auto simp: request_loop.simps [of I E C fuel c a s])
    with c1 show ?thesis by simp
  next
    case False
    with assms Some p have
      "request_loop I E C fuel c (a + 1) (s1\<lparr>now := now s1 + 1000 * (a + 1)\<rparr>) = Some (s', x)"
      by (cases y) (auto simp: request_loop.simps [of I E C fuel c a s])
    then obtain ys where "calls s' = calls (s1\<lparr>now := now s1 + 1000 * (a + 1)\<rparr>) @ ys"
      using request_loop_calls_prefix by blast
    with c1 show ?thesis by simp
  qed
qed

section \<open>Cache lookup and the successful request\<close>

lemma request_loop_Resolve:
  assumes "a < retryAttempts C"
    and "transport E (length (calls s)) (c\<lparr>headers := getAuthHeaders C s (headers c)\<rparr>) = Resolve r"
  shows "request_loop I E C (Suc f) c a s =
           Some (handleResponse I E C
                   (s\<lparr>calls := calls s @ [c\<lparr>headers := getAuthHeaders C s (headers c)\<rparr>]\<rparr>) r)"
proof -
  obtain s' v where h: "handleResponse I E C
      (s\<lparr>calls := calls s @ [c\<lparr>headers := getAuthHeaders C s (headers c)\<rparr>]\<rparr>) r = (s', Inr v)"
    using handleResponse_Inr by blast
  with assms show ?thesis
    by (simp add: request_loop.simps [of I E C "Suc f" c a s] Let_def)
qed


lemma getAuthHeaders_frame [simp]:
  "getAuthHeaders C (s\<lparr>calls := x\<rparr>) h = getAuthHeaders C s h"
  "getAuthHeaders C (s\<lparr>now := t\<rparr>) h = getAuthHeaders C s h"
  "getAuthHeaders C (s\<lparr>refreshes := n\<rparr>) h = getAuthHeaders C s h"
  "getAuthHeaders C (s\<lparr>cache := m\<rparr>) h = getAuthHeaders C s h"
  by (simp_all add: getAuthHeaders_def)



text \<open>
  C3, as the code has it. With caching enabled, a live cache entry under the request's
  key whose value is truthy is returned at once, whatever the fuel and whatever the
  transport and the hook would do: the state that comes back is the state that went in,
  so the log of transport calls, the count of refresh calls and the clock are untouched.
\<close>

theorem cache_hit_returns_cached:
  assumes "cacheEnabled C"
    and "cache_get s (getCacheKey (spread (default_method I m options) endpoint options)) = Some v"
    and "truthy v"
  shows "request I E C fuel m endpoint options s = Some (s, Inr (Data v))"
  using assms by (simp add: request_def Let_def)

text \<open>
  C10. With caching enabled and a live entry under the request's key, a falsy cached
  value makes \<^verbatim>\<open>request\<close> do what it does on a miss: it enters the retry loop, whose
  first step hands the request to the transport (and a first response that resolves is
  handled and returned); only a truthy cached value is returned from the cache.
\<close>

theorem falsy_cache_entry_is_miss:
  assumes "cacheEnabled C"
    and "c = spread (default_method I m options) endpoint options"
    and "cache_get s (getCacheKey c) = Some v"
  shows "(\<not> truthy v \<longrightarrow>
            request I E C fuel m endpoint options s = request_loop I E C fuel c 0 s \<and>
            (0 < retryAttempts C \<longrightarrow>
               (\<forall>s' x. request I E C fuel m endpoint options s = Some (s', x) \<longrightarrow>
                  (\<exists>rest. calls s' =
                     calls s @ c\<lparr>headers := getAuthHeaders C s (headers c)\<rparr> # rest)) \<and>
               (\<forall>r. transport E (length (calls s))
                       (c\<lparr>headers := getAuthHeaders C s (headers c)\<rparr>) = Resolve r \<longrightarrow>
                    request I E C (Suc f) m endpoint options s =
                      Some (handleResponse I E C
                        (s\<lparr>calls := calls s @ [c\<lparr>headers := getAuthHeaders C s (headers c)\<rparr>]\<rparr>) r)))) \<and>
         (truthy v \<longrightarrow> request I E C fuel m endpoint options s = Some (s, Inr (Data v)))"
proof -
  have miss: "request I E C k m endpoint options s = request_loop I E C k c 0 s"
    if "\<not> truthy v" for k
    using assms that by (simp add: request_def Let_def)
  have hit: "request I E C fuel m endpoint options s = Some (s, Inr (Data v))" if "truthy v"
    using assms that by (simp add: request_def Let_def)
  show ?thesis
    using miss hit request_loop_first_call [of 0 C I E fuel c s]
      request_loop_Resolve [of 0 C E s c _ I f]
    by (auto simp del: axiosInstance.simps)
qed


section \<open>The scenarios of the cache and of a successful request\<close>

lemmas ex_defs = get_def request_def no_options_def spread_def default_method_def getCacheKey_def
    template_def or_empty_def cache_get_def request_loop.simps handleResponse_def parseResponse_def
    getAuthHeaders_def cache_put_def env_post1_def cfg_cache_def state0_def get_post1_def
    env_zero_then_seven_def state_zero_cached_def state_post1_cached_def post1_def Let_def



theorem falsy_cached_value_refetched:
  "get AppJs env_zero_then_seven cfg_cache 1 ''/posts/1'' (JObj []) state0
     = Some (state_zero_cached, Inr (Data (JNum 0)))
   \<and> cacheEnabled cfg_cache
   \<and> cache_get state_zero_cached (getCacheKey get_post1) = Some (JNum 0)
   \<and> map_option snd (get AppJs env_zero_then_seven cfg_cache 1 ''/posts/1'' (JObj []) state_zero_cached)
       = Some (Inr (Data (JNum 7)))
   \<and> map_option (calls \<circ> fst)
        (get AppJs env_zero_then_seven cfg_cache 1 ''/posts/1'' (JObj []) state_zero_cached)
       = Some [get_post1, get_post1]"
  by (simp add: ex_defs)

theorem cache_hit_returns_cached_witness:
  "get AppJs env_post1 cfg_cache 1 ''/posts/1'' (JObj []) state0
     = Some (state_post1_cached, Inr (Data post1))
   \<and> get AppJs env_post1 cfg_cache 0 ''/posts/1'' (JObj []) state_post1_cached
     = Some (state_post1_cached, Inr (Data post1))
   \<and> calls state_post1_cached = [get_post1] \<and> refreshes state_post1_cached = 0"
proof -
  have a: "cacheEnabled cfg_cache" by (simp add: cfg_cache_def)
  have b: "cache_get state_post1_cached
             (getCacheKey (spread (default_method AppJs (Some ''GET'') (no_options\<lparr>params := Some (JObj [])\<rparr>))
                ''/posts/1'' (no_options\<lparr>params := Some (JObj [])\<rparr>))) = Some post1"
    by (simp add: ex_defs)
  have c: "truthy post1" by (simp add: post1_def)
  have first: "get AppJs env_post1 cfg_cache 1 ''/posts/1'' (JObj []) state0
                 = Some (state_post1_cached, Inr (Data post1))"
    by (simp add: ex_defs)
  from cache_hit_returns_cached [OF a b c, of env_post1 0] first show ?thesis
    by (simp add: get_def state_post1_cached_def state0_def)
qed

theorem falsy_cache_entry_is_miss_witness:
  "request AppJs env_zero_then_seven cfg_cache 1 (Some ''GET'') ''/posts/1''
       (no_options\<lparr>params := Some (JObj [])\<rparr>) state_zero_cached
     = Some (state_zero_cached\<lparr>calls := [get_post1, get_post1],
                cache := [''GET-/posts/1-{}-{}'' \<mapsto> (JNum 7, 300000)]\<rparr>,
             Inr (Data (JNum 7)))
   \<and> \<not> truthy (JNum 0) \<and> cache_get state_zero_cached (getCacheKey get_post1) = Some (JNum 0)"
proof -
  let ?o = "no_options\<lparr>params := Some (JObj [])\<rparr>"
  have a: "cacheEnabled cfg_cache" by (simp add: cfg_cache_def)
  have c: "get_post1 = spread (default_method AppJs (Some ''GET'') ?o) ''/posts/1'' ?o"
    by (simp add: ex_defs)
  have b: "cache_get state_zero_cached (getCacheKey get_post1) = Some (JNum 0)"
    by (simp add: ex_defs)
  have n: "0 < retryAttempts cfg_cache" by (simp add: cfg_cache_def)
  have h: "get_post1\<lparr>headers := getAuthHeaders cfg_cache state_zero_cached (headers get_post1)\<rparr> = get_post1"
    by (simp add: ex_defs)
  have t: "transport env_zero_then_seven (length (calls state_zero_cached))
             (get_post1\<lparr>headers := getAuthHeaders cfg_cache state_zero_cached (headers get_post1)\<rparr>)
             = Resolve \<lparr>r_status = 200, r_data = JNum 7, r_config = get_post1\<rparr>"
    by (simp add: h) (simp add: env_zero_then_seven_def state_zero_cached_def)
  have z: "\<not> truthy (JNum 0)" by simp
  have s: "calls state_zero_cached = [get_post1]" by (simp add: state_zero_cached_def)
  from falsy_cache_entry_is_miss [OF a c b, of env_zero_then_seven 1 0] z n t
  have "request AppJs env_zero_then_seven cfg_cache (Suc 0) (Some ''GET'') ''/posts/1'' ?o state_zero_cached
          = Some (handleResponse AppJs env_zero_then_seven cfg_cache
              (state_zero_cached\<lparr>calls := calls state_zero_cached @
                 [get_post1\<lparr>headers := getAuthHeaders cfg_cache state_zero_cached (headers get_post1)\<rparr>]\<rparr>)
              \<lparr>r_status = 200, r_data = JNum 7, r_config = get_post1\<rparr>)"
    by blast
  with b show ?thesis
    by (simp add: h s) (simp add: ex_defs)
qed

section \<open>The retry loop\<close>


lemmas ex_defs2 = ex_defs http_error_def ok_post1_def env_always_404_def env_fail_twice_def
  env_401_then_500_def cfg_refresh_def thrown_def error_object_def message_of_def refresh_case_def
  show_int_def digits.simps digit_char_def getNewAccessToken_def




section \<open>Token refresh\<close>

lemma axiosInstance_refresh:
  assumes "c' = c\<lparr>headers := getAuthHeaders C s (headers c)\<rparr>"
    and "transport E (length (calls s)) c' = Reject e"
    and "refresh_case C e"
  shows "axiosInstance I E C (Suc f) s c =
           (case refresh_hook E (refreshes s) of
              Inl err \<Rightarrow> Some (s\<lparr>calls := calls s @ [c'], refreshes := Suc (refreshes s)\<rparr>, Inl err)
            | Inr tok \<Rightarrow>
                axiosInstance I E C f
                  (s\<lparr>calls := calls s @ [c'], refreshes := Suc (refreshes s), bearerToken := Some tok\<rparr>)
                  ((e_config e)\<lparr>headers :=
                     assign ''Authorization'' (''Bearer '' @ tok) (headers (e_config e))\<rparr>))"
  using assms by (simp add: Let_def split: sum.splits)

lemma axiosInstance_Reject:
  assumes "c' = c\<lparr>headers := getAuthHeaders C s (headers c)\<rparr>"
    and "transport E (length (calls s)) c' = Reject e"
    and "\<not> refresh_case C e"
  shows "axiosInstance I E C (Suc f) s c = Some (s\<lparr>calls := calls s @ [c']\<rparr>, Inl (thrown I e))"
  using assms by (simp add: Let_def)

lemma axiosInstance_Resolve:
  assumes "c' = c\<lparr>headers := getAuthHeaders C s (headers c)\<rparr>"
    and "transport E (length (calls s)) c' = Resolve r"
  shows "axiosInstance I E C (Suc f) s c = Some (handleResponse I E C (s\<lparr>calls := calls s @ [c']\<rparr>) r)"
  using assms by (simp add: Let_def)

lemma request_loop_step:
  assumes "a < retryAttempts C"
  shows "request_loop I E C fuel c a s =
     (case axiosInstance I E C fuel s c of
        None \<Rightarrow> None
      | Some (s', Inr response) \<Rightarrow> Some (s', Inr response)
      | Some (s', Inl err) \<Rightarrow>
          (if a + 1 = retryAttempts C then Some (s', Inl err)
           else request_loop I E C fuel c (a + 1) (s'\<lparr>now := now s' + 1000 * (a + 1)\<rparr>)))"
  using assms by (simp add: request_loop.simps [of I E C fuel c a s])

text \<open>
  C5, as the code has it. A 401 failure under a configured refresh token, met at any
  value of the attempt counter, calls the refresh hook once. If the hook fails, nothing
  is resubmitted and the attempt fails with the hook's error, which the retry loop
  treats like any failed attempt: it is thrown when the counter is exhausted, and
  otherwise the loop waits and tries again. If the hook returns a token, the token
  becomes the bearer token, the failed request's config gets its
  \<^verbatim>\<open>Authorization\<close> header rewritten and is sent through the instance once more.
  When that second call resolves, \<^verbatim>\<open>request\<close> returns its response with no wait
  and the counter untouched; when it fails (not with another 401), the two calls
  together are one failed attempt.
\<close>

theorem refresh_and_resubmit:
  assumes "a < retryAttempts C"
    and "c' = c\<lparr>headers := getAuthHeaders C s (headers c)\<rparr>"
    and "transport E (length (calls s)) c' = Reject e"
    and "refresh_case C e"
    and "s1 = s\<lparr>calls := calls s @ [c'], refreshes := Suc (refreshes s)\<rparr>"
  shows
    "(\<forall>err. refresh_hook E (refreshes s) = Inl err \<longrightarrow>
        request_loop I E C (Suc f) c a s =
          (if a + 1 = retryAttempts C then Some (s1, Inl err)
           else request_loop I E C (Suc f) c (a + 1) (s1\<lparr>now := now s + 1000 * (a + 1)\<rparr>))) \<and>
     (\<forall>tok s2 c2.
        refresh_hook E (refreshes s) = Inr tok \<and>
        c2 = (e_config e)\<lparr>headers := getAuthHeaders C (s\<lparr>bearerToken := Some tok\<rparr>)
                (assign ''Authorization'' (''Bearer '' @ tok) (headers (e_config e)))\<rparr> \<and>
        s2 = s\<lparr>calls := calls s @ [c', c2], refreshes := Suc (refreshes s),
                bearerToken := Some tok\<rparr> \<longrightarrow>
        (\<forall>r. transport E (Suc (length (calls s))) c2 = Resolve r \<longrightarrow>
           request_loop I E C (Suc (Suc f)) c a s = Some (handleResponse I E C s2 r)) \<and>
        (\<forall>e2. transport E (Suc (length (calls s))) c2 = Reject e2 \<and> \<not> refresh_case C e2 \<longrightarrow>
           request_loop I E C (Suc (Suc f)) c a s =
             (if a + 1 = retryAttempts C then Some (s2, Inl (thrown I e2))
              else request_loop I E C (Suc (Suc f)) c (a + 1)
                     (s2\<lparr>now := now s + 1000 * (a + 1)\<rparr>))))"
proof -
  have failed: "request_loop I E C (Suc f) c a s =
          (if a + 1 = retryAttempts C then Some (s1, Inl err)
           else request_loop I E C (Suc f) c (a + 1) (s1\<lparr>now := now s + 1000 * (a + 1)\<rparr>))"
    if h: "refresh_hook E (refreshes s) = Inl err" for err
  proof -
    have "axiosInstance I E C (Suc f) s c = Some (s1, Inl err)"
      using axiosInstance_refresh [OF assms(2,3,4), of I f] h assms(5)
      by (simp del: axiosInstance.simps)
    then show ?thesis
      using assms(5) by (simp add: request_loop_step [OF assms(1)] del: axiosInstance.simps)
  qed
  have resubmit: "axiosInstance I E C (Suc (Suc f)) s c =
          axiosInstance I E C (Suc f)
            (s\<lparr>calls := calls s @ [c'], refreshes := Suc (refreshes s), bearerToken := Some tok\<rparr>)
            ((e_config e)\<lparr>headers :=
               assign ''Authorization'' (''Bearer '' @ tok) (headers (e_config e))\<rparr>)"
    if "refresh_hook E (refreshes s) = Inr tok" for tok
    using axiosInstance_refresh [OF assms(2,3,4), of I "Suc f"] that
    by (simp del: axiosInstance.simps)
  have second: "axiosInstance I E C (Suc (Suc f)) s c =
       (case transport E (Suc (length (calls s))) c2 of
          Resolve r \<Rightarrow> Some (handleResponse I E C s2 r)
        | Reject e2 \<Rightarrow> handleError I E C f s2 e2)"
    if h: "refresh_hook E (refreshes s) = Inr tok"
      and c2: "c2 = (e_config e)\<lparr>headers := getAuthHeaders C (s\<lparr>bearerToken := Some tok\<rparr>)
                (assign ''Authorization'' (''Bearer '' @ tok) (headers (e_config e)))\<rparr>"
      and s2: "s2 = s\<lparr>calls := calls s @ [c', c2], refreshes := Suc (refreshes s),
                bearerToken := Some tok\<rparr>"
    for tok c2 s2
  proof -
    let ?sm = "s\<lparr>calls := calls s @ [c'], refreshes := Suc (refreshes s), bearerToken := Some tok\<rparr>"
    let ?cm = "(e_config e)\<lparr>headers :=
                 assign ''Authorization'' (''Bearer '' @ tok) (headers (e_config e))\<rparr>"
    have g: "getAuthHeaders C ?sm (headers ?cm)
               = getAuthHeaders C (s\<lparr>bearerToken := Some tok\<rparr>) (headers ?cm)"
      by (rule getAuthHeaders_cong) simp
    have c2': "?cm\<lparr>headers := getAuthHeaders C ?sm (headers ?cm)\<rparr> = c2"
      unfolding g c2 by simp
    have s2': "?sm\<lparr>calls := calls ?sm @ [c2]\<rparr> = s2"
      unfolding s2 by simp
    have l: "length (calls ?sm) = Suc (length (calls s))"
      by simp
    have "axiosInstance I E C (Suc f) ?sm ?cm =
       (case transport E (Suc (length (calls s))) c2 of
          Resolve r \<Rightarrow> Some (handleResponse I E C s2 r)
        | Reject e2 \<Rightarrow> handleError I E C f s2 e2)"
      unfolding axiosInstance.simps Let_def c2' s2' l ..
    with resubmit [OF h] show ?thesis by (simp only:)
  qed
  have ok: "request_loop I E C (Suc (Suc f)) c a s = Some (handleResponse I E C s2 r)"
    if h: "refresh_hook E (refreshes s) = Inr tok"
      and c2: "c2 = (e_config e)\<lparr>headers := getAuthHeaders C (s\<lparr>bearerToken := Some tok\<rparr>)
                (assign ''Authorization'' (''Bearer '' @ tok) (headers (e_config e)))\<rparr>"
      and s2: "s2 = s\<lparr>calls := calls s @ [c', c2], refreshes := Suc (refreshes s),
                bearerToken := Some tok\<rparr>"
      and t: "transport E (Suc (length (calls s))) c2 = Resolve r"
    for tok c2 s2 r
  proof -
    obtain s3 v where "handleResponse I E C s2 r = (s3, Inr v)"
      using handleResponse_Inr by blast
    with second [OF h c2 s2] t show ?thesis
      by (simp add: request_loop_step [OF assms(1)] del: axiosInstance.simps)
  qed
  have ko: "request_loop I E C (Suc (Suc f)) c a s =
             (if a + 1 = retryAttempts C then Some (s2, Inl (thrown I e2))
              else request_loop I E C (Suc (Suc f)) c (a + 1)
                     (s2\<lparr>now := now s + 1000 * (a + 1)\<rparr>))"
    if h: "refresh_hook E (refreshes s) = Inr tok"
      and c2: "c2 = (e_config e)\<lparr>headers := getAuthHeaders C (s\<lparr>bearerToken := Some tok\<rparr>)
                (assign ''Authorization'' (''Bearer '' @ tok) (headers (e_config e)))\<rparr>"
      and s2: "s2 = s\<lparr>calls := calls s @ [c', c2], refreshes := Suc (refreshes s),
                bearerToken := Some tok\<rparr>"
      and t: "transport E (Suc (length (calls s))) c2 = Reject e2" "\<not> refresh_case C e2"
    for tok c2 s2 e2
  proof -
    have n: "now s2 = now s" unfolding s2 by simp
    from second [OF h c2 s2] t show ?thesis
      by (simp add: request_loop_step [OF assms(1)] n del: axiosInstance.simps)
  qed
  from failed ok ko show ?thesis by blast
qed

lemmas ex_defs3 = ex_defs2 env_401_once_def env_hook_fails_def get_post1_bearer_def
  not_found_def env_404_message_def timeout_error_def env_timeout_def params_ab_def params_ba_def
  frame_a1_def parse_a1_def env_ws_def only_onMessage_def env_ok_def tiny_parse_def
  quote_def escape_char_def

theorem refresh_failure_is_retried:
  "refresh_hook env_hook_fails 0 = Inl (HookError ''refresh failed'')
   \<and> map_option snd (get AppJs env_hook_fails cfg_refresh 1 ''/posts/1'' (JObj []) state0)
       = Some (Inr (Data post1))
   \<and> map_option (refreshes \<circ> fst) (get AppJs env_hook_fails cfg_refresh 1 ''/posts/1'' (JObj []) state0)
       = Some 1
   \<and> map_option (calls \<circ> fst) (get AppJs env_hook_fails cfg_refresh 1 ''/posts/1'' (JObj []) state0)
       = Some [get_post1, get_post1]
   \<and> map_option (now \<circ> fst) (get AppJs env_hook_fails cfg_refresh 1 ''/posts/1'' (JObj []) state0)
       = Some 1000"
  by (simp add: ex_defs3)

theorem refresh_and_resubmit_witness:
  "request_loop AppJs env_401_once cfg_refresh 2 get_post1 0 state0
     = Some (state0\<lparr>calls := [get_post1, get_post1_bearer], refreshes := 1,
                     bearerToken := Some ''new-access-token''\<rparr>,
             Inr (Data post1))
   \<and> request_loop AppJs env_hook_fails cfg_refresh 1 get_post1 0 state0
     = request_loop AppJs env_hook_fails cfg_refresh 1 get_post1 1
         (state0\<lparr>calls := [get_post1], refreshes := 1, now := 1000\<rparr>)"
proof -
  let ?e = "http_error 401 (JObj []) get_post1"
  have a: "0 < retryAttempts cfg_refresh" by (simp add: cfg_refresh_def)
  have c': "get_post1 = get_post1\<lparr>headers := getAuthHeaders cfg_refresh state0 (headers get_post1)\<rparr>"
    by (simp add: ex_defs3)
  have rc: "refresh_case cfg_refresh ?e"
    by (simp add: refresh_case_def http_error_def cfg_refresh_def)
  have t1: "transport env_401_once (length (calls state0)) get_post1 = Reject ?e"
    by (simp add: env_401_once_def state0_def)
  have t2: "transport env_hook_fails (length (calls state0)) get_post1 = Reject ?e"
    by (simp add: env_hook_fails_def state0_def)
  have h1: "refresh_hook env_401_once (refreshes state0) = Inr ''new-access-token''"
    by (simp add: env_401_once_def getNewAccessToken_def)
  have h2: "refresh_hook env_hook_fails (refreshes state0) = Inl (HookError ''refresh failed'')"
    by (simp add: env_hook_fails_def)
  have c2: "get_post1_bearer =
      (e_config ?e)\<lparr>headers := getAuthHeaders cfg_refresh (state0\<lparr>bearerToken := Some ''new-access-token''\<rparr>)
         (assign ''Authorization'' (''Bearer '' @ ''new-access-token'') (headers (e_config ?e)))\<rparr>"
    by (simp add: ex_defs3)
  have t3: "transport env_401_once (Suc (length (calls state0))) get_post1_bearer
              = Resolve (ok_post1 get_post1_bearer)"
    by (simp add: env_401_once_def)
  let ?s2 = "state0\<lparr>calls := calls state0 @ [get_post1, get_post1_bearer],
               refreshes := Suc (refreshes state0), bearerToken := Some ''new-access-token''\<rparr>"
  from refresh_and_resubmit [OF a c' t1 rc refl, of AppJs 0] h1 c2 t3
  have 1: "request_loop AppJs env_401_once cfg_refresh (Suc (Suc 0)) get_post1 0 state0
             = Some (handleResponse AppJs env_401_once cfg_refresh ?s2 (ok_post1 get_post1_bearer))"
    by blast
  from refresh_and_resubmit [OF a c' t2 rc refl, of AppJs 0] h2
  have 2: "request_loop AppJs env_hook_fails cfg_refresh (Suc 0) get_post1 0 state0 =
          (if 0 + 1 = retryAttempts cfg_refresh
           then Some (state0\<lparr>calls := calls state0 @ [get_post1], refreshes := Suc (refreshes state0)\<rparr>,
                      Inl (HookError ''refresh failed''))
           else request_loop AppJs env_hook_fails cfg_refresh (Suc 0) get_post1 (0 + 1)
                  (state0\<lparr>calls := calls state0 @ [get_post1], refreshes := Suc (refreshes state0),
                     now := now state0 + 1000 * (0 + 1)\<rparr>))"
    by blast
  have h: "handleResponse AppJs env_401_once cfg_refresh ?s2 (ok_post1 get_post1_bearer)
            = (state0\<lparr>calls := [get_post1, get_post1_bearer], refreshes := 1,
                     bearerToken := Some ''new-access-token''\<rparr>, Inr (Data post1))"
    by (simp add: handleResponse_def parseResponse_def ok_post1_def post1_def cfg_refresh_def state0_def)
  from 1 h have r1: "request_loop AppJs env_401_once cfg_refresh 2 get_post1 0 state0
     = Some (state0\<lparr>calls := [get_post1, get_post1_bearer], refreshes := 1,
                     bearerToken := Some ''new-access-token''\<rparr>, Inr (Data post1))"
    by (simp only: numeral_2_eq_2)
  from 2 have r2: "request_loop AppJs env_hook_fails cfg_refresh 1 get_post1 0 state0
     = request_loop AppJs env_hook_fails cfg_refresh 1 get_post1 1
         (state0\<lparr>calls := [get_post1], refreshes := 1, now := 1000\<rparr>)"
    by (simp add: cfg_refresh_def state0_def)
  from r1 r2 show ?thesis by (rule conjI)
qed

text \<open>
  Nothing bounds the refreshes of one attempt: when every transport call fails with a
  401 under a configured refresh token and every call of the hook returns a token, no
  amount of fuel lets the instance, or the request, return.
\<close>

lemma refresh_without_end:
  assumes "\<forall>n c. \<exists>e. transport E n c = Reject e \<and> refresh_case C e"
    and "\<forall>n. \<exists>tok. refresh_hook E n = Inr tok"
  shows "axiosInstance I E C fuel s c = None"
proof (induction fuel arbitrary: s c)
  case 0
  show ?case by simp
next
  case (Suc fuel)
  let ?c' = "c\<lparr>headers := getAuthHeaders C s (headers c)\<rparr>"
  from assms(1) obtain e where e: "transport E (length (calls s)) ?c' = Reject e" "refresh_case C e"
    by blast
  from assms(2) obtain tok where tok: "refresh_hook E (refreshes s) = Inr tok"
    by blast
  from axiosInstance_refresh [OF refl e, of I fuel] tok Suc.IH show ?case
    by (simp del: axiosInstance.simps)
qed

lemma request_without_end:
  assumes "\<forall>n c. \<exists>e. transport E n c = Reject e \<and> refresh_case C e"
    and "\<forall>n. \<exists>tok. refresh_hook E n = Inr tok"
    and "0 < retryAttempts C"
  shows "request_loop I E C fuel c 0 s = None"
  using refresh_without_end [OF assms(1,2)] assms(3)
  by (simp add: request_loop_step del: axiosInstance.simps)

section \<open>More fuel changes no result\<close>

lemma axiosInstance_more_fuel:
  "axiosInstance I E C fuel s c = Some x \<Longrightarrow> axiosInstance I E C (Suc fuel) s c = Some x"
proof (induction fuel arbitrary: s c)
  case 0
  then show ?case by simp
next
  case (Suc fuel)
  let ?c' = "c\<lparr>headers := getAuthHeaders C s (headers c)\<rparr>"
  let ?s' = "s\<lparr>calls := calls s @ [?c']\<rparr>"
  show ?case
  proof (cases "transport E (length (calls s)) ?c'")
    case (Resolve r)
    with Suc.prems show ?thesis
      using axiosInstance_Resolve [OF refl Resolve, of I "Suc fuel"]
            axiosInstance_Resolve [OF refl Resolve, of I fuel]
      by (simp del: axiosInstance.simps)
  next
    case (Reject e)
    show ?thesis
    proof (cases "refresh_case C e")
      case False
      with Suc.prems show ?thesis
        using axiosInstance_Reject [OF refl Reject False, of I "Suc fuel"]
              axiosInstance_Reject [OF refl Reject False, of I fuel]
        by (simp del: axiosInstance.simps)
    next
      case True
      show ?thesis
      proof (cases "refresh_hook E (refreshes s)")
        case (Inl err)
        with Suc.prems show ?thesis
          using axiosInstance_refresh [OF refl Reject True, of I "Suc fuel"]
                axiosInstance_refresh [OF refl Reject True, of I fuel]
          by (simp del: axiosInstance.simps)
      next
        case (Inr tok)
        with Suc.prems Suc.IH show ?thesis
          using axiosInstance_refresh [OF refl Reject True, of I "Suc fuel"]
                axiosInstance_refresh [OF refl Reject True, of I fuel]
          by (simp del: axiosInstance.simps)
      qed
    qed
  qed
qed

lemma request_loop_more_fuel:
  "request_loop I E C fuel c a s = Some x \<Longrightarrow> request_loop I E C (Suc fuel) c a s = Some x"
proof (induction I E C fuel c a s rule: request_loop.induct)
  case (1 I E C fuel c attempts s)
  show ?case
  proof (cases "attempts < retryAttempts C")
    case False
    with "1.prems" show ?thesis
      by (simp add: request_loop.simps [of I E C _ c attempts s])
  next
    case True
    show ?thesis
    proof (cases "axiosInstance I E C fuel s c")
      case None
      with True "1.prems" show ?thesis
        by (auto simp: request_loop_step simp del: axiosInstance.simps)
    next
      case (Some p)
      obtain s1 y where p: "p = (s1, y)" by (cases p)
      from Some p have more: "axiosInstance I E C (Suc fuel) s c = Some (s1, y)"
        by (simp add: axiosInstance_more_fuel del: axiosInstance.simps)
      show ?thesis
      proof (cases y)
        case (Inr v)
        with True Some p more "1.prems" show ?thesis
          by (auto simp: request_loop_step simp del: axiosInstance.simps)
      next
        case (Inl err)
        show ?thesis
        proof (cases "attempts + 1 = retryAttempts C")
          case last: True
          with True Some p Inl more "1.prems" show ?thesis
            by (auto simp: request_loop_step simp del: axiosInstance.simps)
        next
          case again: False
          with True Some p Inl "1.prems" have
            "request_loop I E C fuel c (attempts + 1)
               (s1\<lparr>now := now s1 + 1000 * (attempts + 1)\<rparr>) = Some x"
            by (auto simp: request_loop_step simp del: axiosInstance.simps)
          from "1.IH" [OF True Some [unfolded p] _ Inl again this] True more Inl again
          show ?thesis
            by (auto simp: request_loop_step simp del: axiosInstance.simps)
        qed
      qed
    qed
  qed
qed

lemma request_more_fuel:
  "request I E C fuel m endpoint options s = Some x \<Longrightarrow>
     request I E C (Suc fuel) m endpoint options s = Some x"
  by (auto simp: request_def Let_def request_loop_more_fuel split: option.splits if_splits)

section \<open>Errors surfaced by the instance\<close>

text \<open>
  C6, as the code has it. A transport failure that is not a 401 under a configured
  refresh token ends the call of the instance with an error. A failure without an HTTP
  response is thrown unchanged by both files. For a failure with a response,
  \<^verbatim>\<open>src/app.ts\<close> throws the raw error unchanged as well, and \<^verbatim>\<open>app.js\<close> throws
  \<^verbatim>\<open>{status, message, data}\<close> (for a response body that is not null), whose message
  is the body's \<^verbatim>\<open>message\<close> property when that is truthy and the error's own
  message otherwise.
\<close>

theorem handleError_surfaces:
  assumes "c' = c\<lparr>headers := getAuthHeaders C s (headers c)\<rparr>"
    and "transport E (length (calls s)) c' = Reject e"
    and "\<not> refresh_case C e"
  shows "axiosInstance I E C (Suc f) s c = Some (s\<lparr>calls := calls s @ [c']\<rparr>, Inl (thrown I e)) \<and>
         (e_response e = None \<longrightarrow> thrown I e = AxiosError e) \<and>
         thrown AppTs e = AxiosError e \<and>
         (\<forall>r. e_response e = Some r \<and> r_data r \<noteq> JNull \<longrightarrow>
            (\<exists>msg. thrown AppJs e = ErrorObject (r_status r) msg (r_data r) \<and>
               (\<forall>kvs m. r_data r = JObj kvs \<and> map_of kvs ''message'' = Some m \<and> truthy m
                    \<longrightarrow> msg = m) \<and>
               ((\<forall>kvs. r_data r = JObj kvs \<longrightarrow> \<not> truthy_opt (map_of kvs ''message''))
                    \<longrightarrow> msg = JStr (e_message e))))"
proof -
  have 1: "axiosInstance I E C (Suc f) s c = Some (s\<lparr>calls := calls s @ [c']\<rparr>, Inl (thrown I e))"
    by (rule axiosInstance_Reject [OF assms])
  have 2: "e_response e = None \<longrightarrow> thrown I e = AxiosError e"
    by (simp add: thrown_def)
  have 3: "thrown AppTs e = AxiosError e"
    by (simp add: thrown_def split: option.splits)
  have 4: "\<exists>msg. thrown AppJs e = ErrorObject (r_status r) msg (r_data r) \<and>
               (\<forall>kvs m. r_data r = JObj kvs \<and> map_of kvs ''message'' = Some m \<and> truthy m
                    \<longrightarrow> msg = m) \<and>
               ((\<forall>kvs. r_data r = JObj kvs \<longrightarrow> \<not> truthy_opt (map_of kvs ''message''))
                    \<longrightarrow> msg = JStr (e_message e))"
    if "e_response e = Some r" "r_data r \<noteq> JNull" for r
  proof (intro exI conjI)
    show "thrown AppJs e = ErrorObject (r_status r) (message_of e (r_data r)) (r_data r)"
      using that by (cases "r_data r") (simp_all add: thrown_def error_object_def)
    show "\<forall>kvs m. r_data r = JObj kvs \<and> map_of kvs ''message'' = Some m \<and> truthy m
            \<longrightarrow> message_of e (r_data r) = m"
      by (simp add: message_of_def)
    show "(\<forall>kvs. r_data r = JObj kvs \<longrightarrow> \<not> truthy_opt (map_of kvs ''message''))
            \<longrightarrow> message_of e (r_data r) = JStr (e_message e)"
      by (cases "r_data r") (auto simp: message_of_def split: option.splits)
  qed
  from 1 2 3 4 show ?thesis by blast
qed

theorem ts_surfaces_raw_error:
  "map_option snd (get AppTs env_404_message cfg_cache 1 ''/posts/1'' (JObj []) state0)
     = Some (Inl (AxiosError (http_error 404 not_found get_post1)))
   \<and> map_option snd (get AppTs env_404_message cfg_cache 1 ''/posts/1'' (JObj []) state0)
     \<noteq> Some (Inl (ErrorObject 404 (JStr ''Not Found'') not_found))"
  by (simp add: ex_defs3)

theorem handleError_surfaces_witness:
  "axiosInstance AppJs env_404_message cfg_cache 1 state0 get_post1
     = Some (state0\<lparr>calls := [get_post1]\<rparr>, Inl (ErrorObject 404 (JStr ''Not Found'') not_found))
   \<and> axiosInstance AppJs env_always_404 cfg_cache 1 state0 get_post1
     = Some (state0\<lparr>calls := [get_post1]\<rparr>,
             Inl (ErrorObject 404 (JStr ''Request failed with status code 404'') (JObj [])))
   \<and> axiosInstance AppJs env_timeout cfg_cache 1 state0 get_post1
     = Some (state0\<lparr>calls := [get_post1]\<rparr>, Inl (AxiosError (timeout_error get_post1)))"
proof -
  let ?r1 = "\<lparr>r_status = 404, r_data = not_found, r_config = get_post1\<rparr>"
  let ?r2 = "\<lparr>r_status = 404, r_data = JObj [], r_config = get_post1\<rparr>"
  have c': "get_post1 = get_post1\<lparr>headers := getAuthHeaders cfg_cache state0 (headers get_post1)\<rparr>"
    by (simp add: ex_defs3)
  have t1: "transport env_404_message (length (calls state0)) get_post1
              = Reject (http_error 404 not_found get_post1)"
    by (simp add: env_404_message_def)
  have t2: "transport env_always_404 (length (calls state0)) get_post1
              = Reject (http_error 404 (JObj []) get_post1)"
    by (simp add: env_always_404_def)
  have t3: "transport env_timeout (length (calls state0)) get_post1 = Reject (timeout_error get_post1)"
    by (simp add: env_timeout_def)
  have n1: "\<not> refresh_case cfg_cache (http_error 404 not_found get_post1)"
    and n2: "\<not> refresh_case cfg_cache (http_error 404 (JObj []) get_post1)"
    and n3: "\<not> refresh_case cfg_cache (timeout_error get_post1)"
    by (simp_all add: refresh_case_def http_error_def timeout_error_def)
  have e1: "e_response (http_error 404 not_found get_post1) = Some ?r1 \<and> r_data ?r1 \<noteq> JNull"
    and e2: "e_response (http_error 404 (JObj []) get_post1) = Some ?r2 \<and> r_data ?r2 \<noteq> JNull"
    and e3: "e_response (timeout_error get_post1) = None"
    by (simp_all add: http_error_def timeout_error_def not_found_def)
  have m1: "r_data ?r1 = JObj [(''message'', JStr ''Not Found'')] \<and>
            map_of [(''message'', JStr ''Not Found'')] ''message'' = Some (JStr ''Not Found'') \<and>
            truthy (JStr ''Not Found'')"
    by (simp add: not_found_def)
  have m2: "\<forall>kvs. r_data ?r2 = JObj kvs \<longrightarrow> \<not> truthy_opt (map_of kvs ''message'')"
    by simp
  have m: "e_message (http_error 404 (JObj []) get_post1) = ''Request failed with status code 404''"
    by (simp add: http_error_def show_int_def digits.simps digit_char_def)
  from handleError_surfaces [OF c' t1 n1, of AppJs 0] e1 m1
  have 1: "axiosInstance AppJs env_404_message cfg_cache (Suc 0) state0 get_post1
     = Some (state0\<lparr>calls := calls state0 @ [get_post1]\<rparr>,
             Inl (ErrorObject (r_status ?r1) (JStr ''Not Found'') (r_data ?r1)))"
    by (metis (no_types, lifting))
  from handleError_surfaces [OF c' t2 n2, of AppJs 0] e2 m2 m
  have 2: "axiosInstance AppJs env_always_404 cfg_cache (Suc 0) state0 get_post1
     = Some (state0\<lparr>calls := calls state0 @ [get_post1]\<rparr>,
             Inl (ErrorObject (r_status ?r2) (JStr ''Request failed with status code 404'') (r_data ?r2)))"
    by (metis (no_types, lifting))
  from handleError_surfaces [OF c' t3 n3, of AppJs 0] e3
  have 3: "axiosInstance AppJs env_timeout cfg_cache (Suc 0) state0 get_post1
     = Some (state0\<lparr>calls := calls state0 @ [get_post1]\<rparr>, Inl (AxiosError (timeout_error get_post1)))"
    by (metis (no_types, lifting))
  have s: "calls state0 = []" by (simp add: state0_def)
  from 1 2 3 show ?thesis
    by (simp add: s del: axiosInstance.simps)
qed

section \<open>Cache keys\<close>












section \<open>WebSocket messages\<close>



end
